theory Spec2Isabelle
  imports Main
begin

section \<open>JavaScript values\<close>

text \<open>
  The composables pass around untyped JavaScript values: thrown errors (\<open>error: any\<close>),
  items, queries, the \<open>boolean | string\<close> token flag. Numbers are integers here; no claim
  depends on fractions or NaN.
\<close>

datatype js_value =
    JUndefined
  | JNull
  | JBool bool
  | JNum int
  | JStr string
  | JArr "js_value list"
  | JObj "(string \<times> js_value) list"

text \<open>JavaScript truthiness, as used by \<open>&&\<close>, \<open>||\<close> and \<open>if\<close>.\<close>

fun truthy :: "js_value \<Rightarrow> bool" where
  "truthy JUndefined = False"
| "truthy JNull = False"
| "truthy (JBool b) = b"
| "truthy (JNum n) = (n \<noteq> 0)"
| "truthy (JStr s) = (s \<noteq> [])"
| "truthy (JArr xs) = True"
| "truthy (JObj kvs) = True"

text \<open>
  Property read \<open>v.k\<close> for the two names the catch blocks read, \<open>message\<close> and \<open>errors\<close>:
  an object yields its field or \<open>undefined\<close>, a primitive or an array yields \<open>undefined\<close>.
  The source only reads a property of a value it has tested truthy, so the TypeError of
  \<open>null.k\<close> is never reached.
\<close>

fun get_prop :: "js_value \<Rightarrow> string \<Rightarrow> js_value" where
  "get_prop (JObj kvs) k = (case map_of kvs k of Some v \<Rightarrow> v | None \<Rightarrow> JUndefined)"
| "get_prop v k = JUndefined"

text \<open>\<open>a || b\<close>: the left operand when it is truthy, the right one otherwise.\<close>

definition js_or :: "js_value \<Rightarrow> js_value \<Rightarrow> js_value" where
  "js_or a b = (if truthy a then a else b)"

text \<open>The test \<open>error && error.message\<close> of every catch block.\<close>

definition carries_message :: "js_value \<Rightarrow> bool" where
  "carries_message error = (truthy error \<and> truthy (get_prop error ''message''))"

section \<open>Option objects\<close>

text \<open>
  The option types come from \<open>../types\<close>; their fields are the ones the composables read
  (\<open>options?.useStaticToken\<close>, \<open>options?.query\<close>, \<open>options?.key\<close>, \<open>options?.params\<close>).
  An absent optional field is \<open>JUndefined\<close>; an absent options argument is \<open>None\<close>.
\<close>

record DirectusReqOptions =
  useStaticToken :: js_value

record DirectusReqItemOptions = DirectusReqOptions +
  query :: js_value

record AsyncDataDirectusReqItem = DirectusReqItemOptions +
  key :: "string option"
  params :: js_value

record DirectusPasswordRequest = DirectusReqOptions +
  email :: js_value
  reset_url :: js_value

record DirectusPasswordReset = DirectusReqOptions +
  token :: js_value
  password :: js_value

record DirectusInviteUser = DirectusReqOptions +
  invite_email :: js_value
  role :: js_value
  invite_url :: js_value

record LoginOptions =
  otp :: "string option"
  mode :: "string option"

text \<open>\<open>options?.f\<close>: \<open>undefined\<close> when the options argument is absent.\<close>

definition opt_useStaticToken :: "'a DirectusReqOptions_scheme option \<Rightarrow> js_value" where
  "opt_useStaticToken options = (case options of None \<Rightarrow> JUndefined | Some o' \<Rightarrow> useStaticToken o')"

definition opt_query :: "'a DirectusReqItemOptions_scheme option \<Rightarrow> js_value" where
  "opt_query options = (case options of None \<Rightarrow> JUndefined | Some o' \<Rightarrow> query o')"

definition opt_params :: "'a AsyncDataDirectusReqItem_scheme option \<Rightarrow> js_value" where
  "opt_params options = (case options of None \<Rightarrow> JUndefined | Some o' \<Rightarrow> params o')"

definition opt_key :: "'a AsyncDataDirectusReqItem_scheme option \<Rightarrow> string option" where
  "opt_key options = (case options of None \<Rightarrow> None | Some o' \<Rightarrow> key o')"

text \<open>
  \<open>options?.toString()\<close>: an options object is a plain object literal, so the call reaches
  \<open>Object.prototype.toString\<close> and yields the constant text below whatever the fields hold.
\<close>

definition opt_toString :: "'a AsyncDataDirectusReqItem_scheme option \<Rightarrow> js_value" where
  "opt_toString options = (case options of None \<Rightarrow> JUndefined | Some o' \<Rightarrow> JStr ''[object Object]'')"

section \<open>The SDK and the framework, as seen from the composables\<close>

text \<open>Request descriptors built by the SDK's constructors, arguments in the constructor's order.\<close>

datatype sdk_request =
    SdkCreateItem string js_value js_value
  | SdkCreateItems string js_value js_value
  | SdkReadItem string js_value js_value
  | SdkReadItems string js_value
  | SdkReadSingleton string js_value
  | SdkUpdateItem string js_value js_value js_value
  | SdkUpdateItems string js_value js_value js_value
  | SdkUpdateSingleton string js_value js_value
  | SdkDeleteItem string js_value
  | SdkDeleteItems string js_value
  | SdkPasswordRequest js_value js_value
  | SdkPasswordReset js_value js_value
  | SdkInviteUser js_value js_value js_value
  | SdkReadMe
  | WithToken js_value sdk_request

text \<open>
  The client an SDK method is called on: \<open>useDirectusRest({ useStaticToken })\<close> with the
  flag it was resolved with, \<open>useDirectusRest()\<close>, or the \<open>directus\<close> client the second
  \<open>useDirectusAuth\<close> composes once at set-up.
\<close>

datatype client = Rest js_value | RestDefault | Directus

datatype sdk_call =
    Request sdk_request
  | Login string string "LoginOptions option"
  | Refresh
  | Logout

text \<open>The SDK's \<open>AuthenticationData\<close>: every field is nullable.\<close>

record auth_data =
  access_token :: "string option"
  refresh_token :: "string option"
  expires_at :: "int option"
  expires :: "int option"

text \<open>
  The backend's answers are a parameter of the model. Each SDK method either throws
  (\<open>Inl\<close> the thrown value) or returns (\<open>Inr\<close>). \<open>on_readMe\<close> is the \<open>readMe\<close> helper of
  \<open>useDirectusUser\<close>, which the first \<open>useDirectusAuth\<close> calls after a login.
\<close>

record sdk_env =
  on_request :: "client \<Rightarrow> sdk_request \<Rightarrow> js_value + js_value"
  on_login :: "client \<Rightarrow> string \<Rightarrow> string \<Rightarrow> LoginOptions option \<Rightarrow> js_value + auth_data"
  on_refresh :: "client \<Rightarrow> js_value + auth_data"
  on_logout :: "client \<Rightarrow> js_value + unit"
  on_readMe :: "js_value + js_value"

datatype cookie_name = AccessTokenCookie | RefreshTokenCookie

text \<open>
  What an invocation does that an observer can see, in order: an SDK method called on a
  client with the value it threw (if it threw), a call of the \<open>readMe\<close> helper likewise,
  a \<open>console.error\<close> with its arguments, a cookie written with its \<open>maxAge\<close>.
\<close>

datatype event =
    Sdk client sdk_call "js_value option"
  | ReadMeUser "js_value option"
  | ConsoleError "js_value list"
  | SetCookie cookie_name "int option" js_value

text \<open>
  The state the framework owns and the composables reach: the user ref, the two token
  cookies, and the async-data store, which keeps the outcome of a \<open>useAsyncData\<close> call
  (data or error) under the key of the call. The record is extensible: whatever else an
  application holds sits in its \<open>more\<close> part.
\<close>

record world =
  user :: js_value
  accessToken :: js_value
  refreshToken :: js_value
  asyncData :: "string \<rightharpoonup> js_value + js_value"

text \<open>What \<open>useAsyncData\<close> received: the cache key, the outcome of the handler, the options.\<close>

record async_data =
  ad_key :: string
  ad_result :: "js_value + js_value"
  ad_options :: js_value

datatype ret = Val js_value | Async async_data

type_synonym outcome = "js_value + ret"

definition thrown :: "js_value + 'a \<Rightarrow> js_value option" where
  "thrown r = (case r of Inl e \<Rightarrow> Some e | Inr v \<Rightarrow> None)"

text \<open>\<open>await c.request(rq)\<close>: the answer, and the event it leaves.\<close>

definition request :: "sdk_env \<Rightarrow> client \<Rightarrow> sdk_request \<Rightarrow> (js_value + js_value) \<times> event list" where
  "request env c rq = (on_request env c rq, [Sdk c (Request rq) (thrown (on_request env c rq))])"

text \<open>
  The framework's async-state primitive is external. The model records the key and the
  options it is given and runs the handler once, as on a cache miss; a handler that throws
  does not make \<open>useAsyncData\<close> throw, the error is part of the returned state. What the
  framework then keeps in its store is \<open>keep_async\<close> below.
\<close>

definition useAsyncData ::
  "string \<Rightarrow> (js_value + js_value) \<times> event list \<Rightarrow> js_value \<Rightarrow> outcome \<times> event list" where
  "useAsyncData k handler opts =
     (Inr (Async \<lparr>ad_key = k, ad_result = fst handler, ad_options = opts\<rparr>), snd handler)"

section \<open>The catch blocks\<close>

text \<open>
  Every catch block but one is the same text up to its context string: log the string with
  \<open>error.errors\<close> when the error carries a message, log the raw error otherwise.
\<close>

definition catch_log :: "string \<Rightarrow> js_value \<Rightarrow> event list" where
  "catch_log context error =
     (if carries_message error
      then [ConsoleError [JStr context, get_prop error ''errors'']]
      else [ConsoleError [error]])"

text \<open>The second \<open>useDirectusAuth\<close> throws after logging: \<open>error.errors\<close> or the raw error.\<close>

definition rethrown :: "js_value \<Rightarrow> js_value" where
  "rethrown error = (if carries_message error then get_prop error ''errors'' else error)"

text \<open>
  \<open>try { return await body } catch (error) { log }\<close>: the function returns the answer, or
  falls off its end (\<open>undefined\<close>) after the catch block.
\<close>

definition try_swallow :: "(js_value + js_value) \<times> event list \<Rightarrow> string \<Rightarrow> outcome \<times> event list" where
  "try_swallow body context =
     (case body of
        (Inr v, evs) \<Rightarrow> (Inr (Val v), evs)
      | (Inl error, evs) \<Rightarrow> (Inr (Val JUndefined), evs @ catch_log context error))"

text \<open>The same for a body whose value is dropped (\<open>await body\<close> with no \<open>return\<close>).\<close>

definition try_swallow_void :: "(js_value + js_value) \<times> event list \<Rightarrow> string \<Rightarrow> outcome \<times> event list" where
  "try_swallow_void body context =
     (case body of
        (Inr v, evs) \<Rightarrow> (Inr (Val JUndefined), evs)
      | (Inl error, evs) \<Rightarrow> (Inr (Val JUndefined), evs @ catch_log context error))"

section \<open>useDirectusItems\<close>

text \<open>
  \<open>ust\<close> is the composable-level \<open>useStaticToken\<close> argument of \<open>useDirectusItems\<close>. The
  inner \<open>client\<close> passes its argument on to \<open>useDirectusRest\<close> as it is.
\<close>

definition items_client :: "js_value \<Rightarrow> 'a DirectusReqOptions_scheme option \<Rightarrow> client" where
  "items_client ust options = Rest (js_or (opt_useStaticToken options) ust)"

text \<open>The catch block of \<open>createItem\<close> has an empty \<open>else\<close> branch.\<close>

definition createItem ::
  "js_value \<Rightarrow> sdk_env \<Rightarrow> string \<Rightarrow> js_value \<Rightarrow> DirectusReqItemOptions option \<Rightarrow> outcome \<times> event list" where
  "createItem ust env collection item options =
     (case request env (items_client ust options) (SdkCreateItem collection item (opt_query options)) of
        (Inr v, evs) \<Rightarrow> (Inr (Val v), evs)
      | (Inl error, evs) \<Rightarrow>
          (Inr (Val JUndefined),
           evs @ (if carries_message error
                  then [ConsoleError [JStr ''Couldn't create item'', get_prop error ''errors'']]
                  else [])))"

definition createItems ::
  "js_value \<Rightarrow> sdk_env \<Rightarrow> string \<Rightarrow> js_value \<Rightarrow> DirectusReqItemOptions option \<Rightarrow> outcome \<times> event list" where
  "createItems ust env collection items options =
     try_swallow
       (request env (items_client ust options) (SdkCreateItems collection items (opt_query options)))
       ''Couldn't create items''"

text \<open>
  The read path. \<open>hash\<close> is ohash's function, a parameter here. The collection and the id
  may arrive as refs; the model takes the values they hold when the call is made.
\<close>

definition readItem_key ::
  "(js_value \<Rightarrow> string) \<Rightarrow> string \<Rightarrow> js_value \<Rightarrow> AsyncDataDirectusReqItem option \<Rightarrow> string" where
  "readItem_key hash collection id' options =
     hash (JArr [JStr collection, id', opt_query options, opt_params options])"

definition readItem ::
  "(js_value \<Rightarrow> string) \<Rightarrow> js_value \<Rightarrow> sdk_env \<Rightarrow> string \<Rightarrow> js_value \<Rightarrow>
   AsyncDataDirectusReqItem option \<Rightarrow> outcome \<times> event list" where
  "readItem hash ust env collection id' options =
     useAsyncData
       (case opt_key options of Some k \<Rightarrow> k | None \<Rightarrow> readItem_key hash collection id' options)
       (request env (items_client ust options) (SdkReadItem collection id' (opt_query options)))
       (opt_params options)"

definition readItems_key ::
  "(js_value \<Rightarrow> string) \<Rightarrow> string \<Rightarrow> AsyncDataDirectusReqItem option \<Rightarrow> string" where
  "readItems_key hash collection options = hash (JArr [JStr collection, opt_toString options])"

definition readItems ::
  "(js_value \<Rightarrow> string) \<Rightarrow> js_value \<Rightarrow> sdk_env \<Rightarrow> string \<Rightarrow>
   AsyncDataDirectusReqItem option \<Rightarrow> outcome \<times> event list" where
  "readItems hash ust env collection options =
     useAsyncData
       (case opt_key options of Some k \<Rightarrow> k | None \<Rightarrow> readItems_key hash collection options)
       (request env (items_client ust options) (SdkReadItems collection (opt_query options)))
       (opt_params options)"

definition readSingleton_key ::
  "(js_value \<Rightarrow> string) \<Rightarrow> string \<Rightarrow> AsyncDataDirectusReqItem option \<Rightarrow> string" where
  "readSingleton_key hash collection options =
     hash (JArr [JStr collection, opt_query options, opt_params options])"

definition readSingleton ::
  "(js_value \<Rightarrow> string) \<Rightarrow> js_value \<Rightarrow> sdk_env \<Rightarrow> string \<Rightarrow>
   AsyncDataDirectusReqItem option \<Rightarrow> outcome \<times> event list" where
  "readSingleton hash ust env collection options =
     useAsyncData
       (case opt_key options of Some k \<Rightarrow> k | None \<Rightarrow> readSingleton_key hash collection options)
       (request env (items_client ust options) (SdkReadSingleton collection (opt_query options)))
       (opt_params options)"

definition updateItem ::
  "js_value \<Rightarrow> sdk_env \<Rightarrow> string \<Rightarrow> js_value \<Rightarrow> js_value \<Rightarrow>
   DirectusReqItemOptions option \<Rightarrow> outcome \<times> event list" where
  "updateItem ust env collection id' item options =
     try_swallow
       (request env (items_client ust options) (SdkUpdateItem collection id' item (opt_query options)))
       ''Couldn't update item''"

definition updateItems ::
  "js_value \<Rightarrow> sdk_env \<Rightarrow> string \<Rightarrow> js_value \<Rightarrow> js_value \<Rightarrow>
   DirectusReqItemOptions option \<Rightarrow> outcome \<times> event list" where
  "updateItems ust env collection ids item options =
     try_swallow
       (request env (items_client ust options) (SdkUpdateItems collection ids item (opt_query options)))
       ''Couldn't update items''"

definition updateSingleton ::
  "js_value \<Rightarrow> sdk_env \<Rightarrow> string \<Rightarrow> js_value \<Rightarrow> DirectusReqItemOptions option \<Rightarrow> outcome \<times> event list" where
  "updateSingleton ust env collection item options =
     try_swallow
       (request env (items_client ust options) (SdkUpdateSingleton collection item (opt_query options)))
       ''Couldn't update singleton''"

definition deleteItem ::
  "js_value \<Rightarrow> sdk_env \<Rightarrow> string \<Rightarrow> js_value \<Rightarrow> DirectusReqOptions option \<Rightarrow> outcome \<times> event list" where
  "deleteItem ust env collection id' options =
     try_swallow
       (request env (items_client ust options) (SdkDeleteItem collection id'))
       ''Couldn't delete item''"

definition deleteItems ::
  "js_value \<Rightarrow> sdk_env \<Rightarrow> string \<Rightarrow> js_value \<Rightarrow> DirectusReqOptions option \<Rightarrow> outcome \<times> event list" where
  "deleteItems ust env collection idOrQuery options =
     try_swallow
       (request env (items_client ust options) (SdkDeleteItems collection idOrQuery))
       ''Couldn't delete items''"

section \<open>useDirectusAuth (runtime/composables/useDirectusAuth.ts)\<close>

text \<open>
  The inner \<open>client\<close> has a default parameter, \<open>useStaticToken = false\<close>, which JavaScript
  applies when the argument is absent or \<open>undefined\<close>.
\<close>

definition auth_client :: "js_value \<Rightarrow> client" where
  "auth_client flag = Rest (if flag = JUndefined then JBool False else flag)"

text \<open>
  \<open>defu(options, defaultOptions)\<close> on login options: a field of \<open>options\<close> that is set wins,
  a missing one is filled from the defaults.
\<close>

definition defu :: "LoginOptions option \<Rightarrow> LoginOptions \<Rightarrow> LoginOptions" where
  "defu options defaultOptions =
     (case options of
        None \<Rightarrow> defaultOptions
      | Some o' \<Rightarrow>
          \<lparr>otp = (case otp o' of None \<Rightarrow> otp defaultOptions | Some x \<Rightarrow> Some x),
           mode = (case mode o' of None \<Rightarrow> mode defaultOptions | Some m \<Rightarrow> Some m)\<rparr>)"

definition js_string :: "string option \<Rightarrow> js_value" where
  "js_string s = (case s of None \<Rightarrow> JNull | Some x \<Rightarrow> JStr x)"

definition js_number :: "int option \<Rightarrow> js_value" where
  "js_number n = (case n of None \<Rightarrow> JNull | Some x \<Rightarrow> JNum x)"

text \<open>The object \<open>login\<close> and \<open>refreshTokens\<close> return.\<close>

definition tokens_result :: "auth_data \<Rightarrow> js_value" where
  "tokens_result authResponse =
     JObj [(''access_token'', js_string (access_token authResponse)),
           (''refresh_token'', js_string (refresh_token authResponse)),
           (''expires_at'', js_number (expires_at authResponse)),
           (''expires'', js_number (expires authResponse))]"

text \<open>
  \<open>readMe\<close> and \<open>setUser\<close> come from \<open>useDirectusUser\<close>: the first is an outside call that
  may throw, the second assigns the user ref, as the \<open>setUser\<close> of the second
  \<open>useDirectusAuth\<close> below does. \<open>useNuxtCookies\<close> is read from the runtime configuration.
\<close>

definition login ::
  "bool \<Rightarrow> sdk_env \<Rightarrow> string \<Rightarrow> string \<Rightarrow> LoginOptions option \<Rightarrow> 'a world_scheme \<Rightarrow>
   outcome \<times> event list \<times> 'a world_scheme" where
  "login useNuxtCookies env identifier pass options w =
     (let params' = defu options \<lparr>otp = None, mode = Some (if useNuxtCookies then ''json'' else ''cookie'')\<rparr>;
          c = auth_client JUndefined;
          call = Login identifier pass (Some params')
      in case on_login env c identifier pass (Some params') of
           Inl error \<Rightarrow>
             (Inr (Val JUndefined), Sdk c call (Some error) # catch_log ''Couldn't login user'' error, w)
         | Inr authResponse \<Rightarrow>
             (case on_readMe env of
                Inl error \<Rightarrow>
                  (Inr (Val JUndefined),
                   [Sdk c call None, ReadMeUser (Some error)] @ catch_log ''Couldn't login user'' error, w)
              | Inr userData \<Rightarrow>
                  (Inr (Val (tokens_result authResponse)),
                   [Sdk c call None, ReadMeUser None], w\<lparr>user := userData\<rparr>)))"

definition refreshTokens ::
  "sdk_env \<Rightarrow> 'a world_scheme \<Rightarrow> outcome \<times> event list \<times> 'a world_scheme" where
  "refreshTokens env w =
     (let c = auth_client JUndefined
      in case on_refresh env c of
           Inl error \<Rightarrow>
             (Inr (Val JUndefined), Sdk c Refresh (Some error) # catch_log ''Couldn't refresh tokens'' error, w)
         | Inr authResponse \<Rightarrow>
             (case on_readMe env of
                Inl error \<Rightarrow>
                  (Inr (Val JUndefined),
                   [Sdk c Refresh None, ReadMeUser (Some error)] @ catch_log ''Couldn't refresh tokens'' error, w)
              | Inr userData \<Rightarrow>
                  (Inr (Val (tokens_result authResponse)),
                   [Sdk c Refresh None, ReadMeUser None], w\<lparr>user := userData\<rparr>)))"

text \<open>The source assigns \<open>user.value = undefined\<close> twice.\<close>

definition logout ::
  "sdk_env \<Rightarrow> 'a world_scheme \<Rightarrow> outcome \<times> event list \<times> 'a world_scheme" where
  "logout env w =
     (let c = auth_client JUndefined
      in case on_logout env c of
           Inr u \<Rightarrow> (Inr (Val JUndefined), [Sdk c Logout None], w\<lparr>user := JUndefined, user := JUndefined\<rparr>)
         | Inl error \<Rightarrow>
             (Inr (Val JUndefined), Sdk c Logout (Some error) # catch_log ''Couldn't logut user'' error, w))"

definition passwordRequest :: "sdk_env \<Rightarrow> DirectusPasswordRequest \<Rightarrow> outcome \<times> event list" where
  "passwordRequest env options =
     try_swallow_void
       (request env (auth_client (useStaticToken options))
          (SdkPasswordRequest (email options) (reset_url options)))
       ''Couldn't request password reset''"

definition passwordReset :: "sdk_env \<Rightarrow> DirectusPasswordReset \<Rightarrow> outcome \<times> event list" where
  "passwordReset env options =
     try_swallow_void
       (request env (auth_client (useStaticToken options))
          (SdkPasswordReset (token options) (password options)))
       ''Couldn't reset password''"

definition inviteUser :: "sdk_env \<Rightarrow> DirectusInviteUser \<Rightarrow> outcome \<times> event list" where
  "inviteUser env options =
     try_swallow_void
       (request env (auth_client (useStaticToken options))
          (SdkInviteUser (invite_email options) (role options) (invite_url options)))
       ''Couldn't invite user''"

section \<open>useDirectusAuth (the second composable, with token cookies)\<close>

definition setUser :: "js_value \<Rightarrow> 'a world_scheme \<Rightarrow> outcome \<times> event list \<times> 'a world_scheme" where
  "setUser v w = (Inr (Val JUndefined), [], w\<lparr>user := v\<rparr>)"

text \<open>\<open>fetchUser\<close> returns the user ref; the model returns the value the ref then holds.\<close>

definition fetchUser :: "sdk_env \<Rightarrow> 'a world_scheme \<Rightarrow> outcome \<times> event list \<times> 'a world_scheme" where
  "fetchUser env w =
     (if truthy (accessToken w)
      then (case request env RestDefault SdkReadMe of
              (Inr res, evs) \<Rightarrow> (Inr (Val res), evs, w\<lparr>user := res\<rparr>)
            | (Inl error, evs) \<Rightarrow>
                (Inl (rethrown error), evs @ catch_log ''Couldn't fetch user'' error, w))
      else (Inr (Val (user w)), [], w))"

text \<open>
  The block \<open>if (authResponse.expires !== null) { ... }\<close> of \<open>signIn\<close> and \<open>refreshTokens\<close>:
  the refresh-token cookie is written first, then the access-token cookie, both with
  \<open>maxAge = expires\<close>.
\<close>

definition store_tokens :: "auth_data \<Rightarrow> 'a world_scheme \<Rightarrow> event list \<times> 'a world_scheme" where
  "store_tokens authResponse w =
     (case expires authResponse of
        None \<Rightarrow> ([], w)
      | Some maxAge \<Rightarrow>
          ([SetCookie RefreshTokenCookie (Some maxAge) (js_string (refresh_token authResponse)),
            SetCookie AccessTokenCookie (Some maxAge) (js_string (access_token authResponse))],
           w\<lparr>refreshToken := js_string (refresh_token authResponse),
             accessToken := js_string (access_token authResponse)\<rparr>))"

text \<open>The object \<open>signIn\<close> and the second \<open>refreshTokens\<close> return.\<close>

definition tokens_result_camel :: "auth_data \<Rightarrow> js_value" where
  "tokens_result_camel authResponse =
     JObj [(''accessToken'', js_string (access_token authResponse)),
           (''refreshToken'', js_string (refresh_token authResponse)),
           (''expiresAt'', js_number (expires_at authResponse)),
           (''expires'', js_number (expires authResponse))]"

text \<open>
  What follows the login or refresh answer in \<open>signIn\<close> and \<open>refreshTokens\<close>: store the
  tokens, read the user with the new access token, set the user, return the tokens. \<open>first\<close>
  is the event of the call that produced \<open>authResponse\<close>.
\<close>

definition after_auth ::
  "sdk_env \<Rightarrow> string \<Rightarrow> event \<Rightarrow> auth_data \<Rightarrow> 'a world_scheme \<Rightarrow>
   outcome \<times> event list \<times> 'a world_scheme" where
  "after_auth env context first authResponse w =
     (case store_tokens authResponse w of
        (cookies, w1) \<Rightarrow>
          (case request env Directus (WithToken (js_string (access_token authResponse)) SdkReadMe) of
             (Inr res, evs) \<Rightarrow>
               (Inr (Val (tokens_result_camel authResponse)), first # cookies @ evs, w1\<lparr>user := res\<rparr>)
           | (Inl error, evs) \<Rightarrow>
               (Inl (rethrown error), first # cookies @ evs @ catch_log context error, w1)))"

definition signIn ::
  "sdk_env \<Rightarrow> string \<Rightarrow> string \<Rightarrow> 'a world_scheme \<Rightarrow> outcome \<times> event list \<times> 'a world_scheme" where
  "signIn env identifier pass w =
     (case on_login env Directus identifier pass None of
        Inl error \<Rightarrow>
          (Inl (rethrown error),
           Sdk Directus (Login identifier pass None) (Some error) # catch_log ''Couldn't login user'' error, w)
      | Inr authResponse \<Rightarrow>
          after_auth env ''Couldn't login user'' (Sdk Directus (Login identifier pass None) None)
            authResponse w)"

definition refreshTokens_cookie ::
  "sdk_env \<Rightarrow> 'a world_scheme \<Rightarrow> outcome \<times> event list \<times> 'a world_scheme" where
  "refreshTokens_cookie env w =
     (case on_refresh env Directus of
        Inl error \<Rightarrow>
          (Inl (rethrown error),
           Sdk Directus Refresh (Some error) # catch_log ''Couldn't refresh tokens'' error, w)
      | Inr authResponse \<Rightarrow>
          after_auth env ''Couldn't refresh tokens'' (Sdk Directus Refresh None) authResponse w)"

definition signOut :: "sdk_env \<Rightarrow> 'a world_scheme \<Rightarrow> outcome \<times> event list \<times> 'a world_scheme" where
  "signOut env w =
     (case on_logout env Directus of
        Inr u \<Rightarrow>
          (Inr (Val JUndefined),
           [Sdk Directus Logout None, SetCookie AccessTokenCookie None JNull,
            SetCookie RefreshTokenCookie None JNull],
           w\<lparr>accessToken := JNull, refreshToken := JNull, user := JNull\<rparr>)
      | Inl error \<Rightarrow>
          (Inl (rethrown error),
           Sdk Directus Logout (Some error) # catch_log ''Couldn't logut user'' error, w))"

section \<open>The exported operations, as one table\<close>

text \<open>
  The three composables return objects of functions. A \<open>call\<close> is one invocation of one of
  them with its arguments; \<open>Call_refreshTokens_cookie\<close> is the \<open>refreshTokens\<close> of the second
  \<open>useDirectusAuth\<close>.
\<close>

datatype call =
    Call_createItem string js_value "DirectusReqItemOptions option"
  | Call_createItems string js_value "DirectusReqItemOptions option"
  | Call_readItem string js_value "AsyncDataDirectusReqItem option"
  | Call_readItems string "AsyncDataDirectusReqItem option"
  | Call_readSingleton string "AsyncDataDirectusReqItem option"
  | Call_updateItem string js_value js_value "DirectusReqItemOptions option"
  | Call_updateItems string js_value js_value "DirectusReqItemOptions option"
  | Call_updateSingleton string js_value "DirectusReqItemOptions option"
  | Call_deleteItem string js_value "DirectusReqOptions option"
  | Call_deleteItems string js_value "DirectusReqOptions option"
  | Call_login string string "LoginOptions option"
  | Call_refreshTokens
  | Call_logout
  | Call_passwordRequest DirectusPasswordRequest
  | Call_passwordReset DirectusPasswordReset
  | Call_inviteUser DirectusInviteUser
  | Call_setUser js_value
  | Call_fetchUser
  | Call_signIn string string
  | Call_refreshTokens_cookie
  | Call_signOut

text \<open>What the composables close over: ohash's function and two configuration values.\<close>

record config =
  cfg_hash :: "js_value \<Rightarrow> string"
  cfg_useStaticToken :: js_value
  cfg_useNuxtCookies :: bool

text \<open>An operation that touches no cell hands the world back as it got it.\<close>

definition stateless :: "outcome \<times> event list \<Rightarrow> 'w \<Rightarrow> outcome \<times> event list \<times> 'w" where
  "stateless r w = (fst r, snd r, w)"

text \<open>
  A read operation leaves the state \<open>useAsyncData\<close> returned in the framework's store, under
  the key it passed; an entry already under that key is replaced.
\<close>

definition keep_async ::
  "outcome \<times> event list \<Rightarrow> 'a world_scheme \<Rightarrow> outcome \<times> event list \<times> 'a world_scheme" where
  "keep_async r w =
     (fst r, snd r,
      (case fst r of
         Inr (Async a) \<Rightarrow> w\<lparr>asyncData := (asyncData w)(ad_key a \<mapsto> ad_result a)\<rparr>
       | _ \<Rightarrow> w))"

fun exec :: "config \<Rightarrow> sdk_env \<Rightarrow> call \<Rightarrow> 'a world_scheme \<Rightarrow> outcome \<times> event list \<times> 'a world_scheme" where
  "exec cfg env (Call_createItem collection item options) w =
     stateless (createItem (cfg_useStaticToken cfg) env collection item options) w"
| "exec cfg env (Call_createItems collection items options) w =
     stateless (createItems (cfg_useStaticToken cfg) env collection items options) w"
| "exec cfg env (Call_readItem collection id' options) w =
     keep_async (readItem (cfg_hash cfg) (cfg_useStaticToken cfg) env collection id' options) w"
| "exec cfg env (Call_readItems collection options) w =
     keep_async (readItems (cfg_hash cfg) (cfg_useStaticToken cfg) env collection options) w"
| "exec cfg env (Call_readSingleton collection options) w =
     keep_async (readSingleton (cfg_hash cfg) (cfg_useStaticToken cfg) env collection options) w"
| "exec cfg env (Call_updateItem collection id' item options) w =
     stateless (updateItem (cfg_useStaticToken cfg) env collection id' item options) w"
| "exec cfg env (Call_updateItems collection ids item options) w =
     stateless (updateItems (cfg_useStaticToken cfg) env collection ids item options) w"
| "exec cfg env (Call_updateSingleton collection item options) w =
     stateless (updateSingleton (cfg_useStaticToken cfg) env collection item options) w"
| "exec cfg env (Call_deleteItem collection id' options) w =
     stateless (deleteItem (cfg_useStaticToken cfg) env collection id' options) w"
| "exec cfg env (Call_deleteItems collection idOrQuery options) w =
     stateless (deleteItems (cfg_useStaticToken cfg) env collection idOrQuery options) w"
| "exec cfg env (Call_login identifier pass options) w =
     login (cfg_useNuxtCookies cfg) env identifier pass options w"
| "exec cfg env Call_refreshTokens w = refreshTokens env w"
| "exec cfg env Call_logout w = logout env w"
| "exec cfg env (Call_passwordRequest options) w = stateless (passwordRequest env options) w"
| "exec cfg env (Call_passwordReset options) w = stateless (passwordReset env options) w"
| "exec cfg env (Call_inviteUser options) w = stateless (inviteUser env options) w"
| "exec cfg env (Call_setUser v) w = setUser v w"
| "exec cfg env Call_fetchUser w = fetchUser env w"
| "exec cfg env (Call_signIn identifier pass) w = signIn env identifier pass w"
| "exec cfg env Call_refreshTokens_cookie w = refreshTokens_cookie env w"
| "exec cfg env Call_signOut w = signOut env w"

definition result :: "outcome \<times> event list \<times> 'w \<Rightarrow> outcome" where
  "result r = fst r"

definition events :: "outcome \<times> event list \<times> 'w \<Rightarrow> event list" where
  "events r = fst (snd r)"

definition final :: "outcome \<times> event list \<times> 'w \<Rightarrow> 'w" where
  "final r = snd (snd r)"

section \<open>Reading a trace\<close>

text \<open>The SDK methods called, in order.\<close>

fun sdk_calls :: "event list \<Rightarrow> sdk_call list" where
  "sdk_calls [] = []"
| "sdk_calls (Sdk c k t # evs) = k # sdk_calls evs"
| "sdk_calls (ev # evs) = sdk_calls evs"

text \<open>The request descriptors handed to \<open>request\<close>, in order.\<close>

fun requests :: "event list \<Rightarrow> sdk_request list" where
  "requests [] = []"
| "requests (Sdk c (Request rq) t # evs) = rq # requests evs"
| "requests (ev # evs) = requests evs"

text \<open>The clients the SDK methods were called on, in order.\<close>

fun clients :: "event list \<Rightarrow> client list" where
  "clients [] = []"
| "clients (Sdk c k t # evs) = c # clients evs"
| "clients (ev # evs) = clients evs"

text \<open>The values thrown by the outside calls, in order.\<close>

fun thrown_errors :: "event list \<Rightarrow> js_value list" where
  "thrown_errors [] = []"
| "thrown_errors (Sdk c k (Some e) # evs) = e # thrown_errors evs"
| "thrown_errors (ReadMeUser (Some e) # evs) = e # thrown_errors evs"
| "thrown_errors (ev # evs) = thrown_errors evs"

text \<open>The argument lists of the \<open>console.error\<close> calls, in order.\<close>

fun console :: "event list \<Rightarrow> js_value list list" where
  "console [] = []"
| "console (ConsoleError args # evs) = args # console evs"
| "console (ev # evs) = console evs"

text \<open>The cookie writes, in order.\<close>

fun cookie_writes :: "event list \<Rightarrow> (cookie_name \<times> int option \<times> js_value) list" where
  "cookie_writes [] = []"
| "cookie_writes (SetCookie n a v # evs) = (n, a, v) # cookie_writes evs"
| "cookie_writes (ev # evs) = cookie_writes evs"

text \<open>The cache key a read operation handed to \<open>useAsyncData\<close>.\<close>

definition key_passed :: "outcome \<times> event list \<Rightarrow> string option" where
  "key_passed r = (case fst r of Inr (Async a) \<Rightarrow> Some (ad_key a) | _ \<Rightarrow> None)"

section \<open>Groups of operations\<close>

text \<open>The three read operations, which hand their SDK call to \<open>useAsyncData\<close>.\<close>

fun read_path :: "call \<Rightarrow> bool" where
  "read_path (Call_readItem collection id' options) = True"
| "read_path (Call_readItems collection options) = True"
| "read_path (Call_readSingleton collection options) = True"
| "read_path c = False"

text \<open>The operations of the second \<open>useDirectusAuth\<close> that have a catch block: it ends in \<open>throw\<close>.\<close>

fun rethrows :: "call \<Rightarrow> bool" where
  "rethrows Call_fetchUser = True"
| "rethrows (Call_signIn identifier pass) = True"
| "rethrows Call_refreshTokens_cookie = True"
| "rethrows Call_signOut = True"
| "rethrows c = False"





text \<open>The context string each catch block passes to \<open>console.error\<close>.\<close>

fun context_string :: "call \<Rightarrow> string" where
  "context_string (Call_createItem collection item options) = ''Couldn't create item''"
| "context_string (Call_createItems collection items options) = ''Couldn't create items''"
| "context_string (Call_updateItem collection id' item options) = ''Couldn't update item''"
| "context_string (Call_updateItems collection ids item options) = ''Couldn't update items''"
| "context_string (Call_updateSingleton collection item options) = ''Couldn't update singleton''"
| "context_string (Call_deleteItem collection id' options) = ''Couldn't delete item''"
| "context_string (Call_deleteItems collection idOrQuery options) = ''Couldn't delete items''"
| "context_string (Call_login identifier pass options) = ''Couldn't login user''"
| "context_string Call_refreshTokens = ''Couldn't refresh tokens''"
| "context_string Call_logout = ''Couldn't logut user''"
| "context_string (Call_passwordRequest options) = ''Couldn't request password reset''"
| "context_string (Call_passwordReset options) = ''Couldn't reset password''"
| "context_string (Call_inviteUser options) = ''Couldn't invite user''"
| "context_string Call_fetchUser = ''Couldn't fetch user''"
| "context_string (Call_signIn identifier pass) = ''Couldn't login user''"
| "context_string Call_refreshTokens_cookie = ''Couldn't refresh tokens''"
| "context_string Call_signOut = ''Couldn't logut user''"
| "context_string c = []"

section \<open>Sample inputs\<close>

text \<open>An error in the shape the backend reports one, with and without a \<open>message\<close>.\<close>

definition forbidden :: js_value where
  "forbidden =
     JObj [(''message'', JStr ''Forbidden''),
           (''errors'', JArr [JObj [(''message'', JStr ''Forbidden'')]])]"

definition no_message :: js_value where
  "no_message = JObj [(''errors'', JArr [JObj [(''code'', JStr ''FORBIDDEN'')]])]"

definition sample_auth :: auth_data where
  "sample_auth =
     \<lparr>access_token = Some ''at-1'', refresh_token = Some ''rt-1'',
      expires_at = Some 1700000900, expires = Some 900\<rparr>"

definition sample_auth_no_expiry :: auth_data where
  "sample_auth_no_expiry =
     \<lparr>access_token = Some ''at-1'', refresh_token = Some ''rt-1'',
      expires_at = None, expires = None\<rparr>"

definition sample_user :: js_value where
  "sample_user = JObj [(''id'', JStr ''u-1'')]"

text \<open>A backend where every call succeeds, and one where every call throws \<open>e\<close>.\<close>

definition backend_ok :: "auth_data \<Rightarrow> sdk_env" where
  "backend_ok a =
     \<lparr>on_request = (\<lambda>c rq. Inr sample_user),
      on_login = (\<lambda>c identifier pass options. Inr a),
      on_refresh = (\<lambda>c. Inr a),
      on_logout = (\<lambda>c. Inr ()),
      on_readMe = Inr sample_user\<rparr>"

definition backend_failing :: "js_value \<Rightarrow> sdk_env" where
  "backend_failing e =
     \<lparr>on_request = (\<lambda>c rq. Inl e),
      on_login = (\<lambda>c identifier pass options. Inl e),
      on_refresh = (\<lambda>c. Inl e),
      on_logout = (\<lambda>c. Inl e),
      on_readMe = Inl e\<rparr>"

definition signed_in :: world where
  "signed_in =
     \<lparr>user = sample_user, accessToken = JStr ''at-0'', refreshToken = JStr ''rt-0'',
      asyncData = Map.empty\<rparr>"

definition signed_out :: world where
  "signed_out =
     \<lparr>user = JUndefined, accessToken = JUndefined, refreshToken = JUndefined,
      asyncData = Map.empty\<rparr>"

definition sample_cfg :: config where
  "sample_cfg = \<lparr>cfg_hash = (\<lambda>v. ''key''), cfg_useStaticToken = JBool True, cfg_useNuxtCookies = True\<rparr>"

definition no_query :: AsyncDataDirectusReqItem where
  "no_query = \<lparr>useStaticToken = JUndefined, query = JUndefined, key = None, params = JUndefined\<rparr>"

definition limit_query :: "int \<Rightarrow> AsyncDataDirectusReqItem" where
  "limit_query n =
     \<lparr>useStaticToken = JUndefined, query = JObj [(''limit'', JNum n)], key = None, params = JUndefined\<rparr>"

section \<open>Reading the trace of each operation\<close>

lemma obs_simps:
  "result (r, evs, w) = r" "events (r, evs, w) = evs" "final (r, evs, w) = w"
  "result (stateless p w) = fst p" "events (stateless p w) = snd p" "final (stateless p w) = w"
  "result (keep_async p w) = fst p" "events (keep_async p w) = snd p"
  by (simp_all add: events_def result_def final_def stateless_def keep_async_def)

lemma sdk_calls_append: "sdk_calls (xs @ ys) = sdk_calls xs @ sdk_calls ys"
  by (induction xs rule: sdk_calls.induct) simp_all

lemma requests_append: "requests (xs @ ys) = requests xs @ requests ys"
  by (induction xs rule: requests.induct) simp_all

lemma clients_append: "clients (xs @ ys) = clients xs @ clients ys"
  by (induction xs rule: clients.induct) simp_all

lemma thrown_errors_append: "thrown_errors (xs @ ys) = thrown_errors xs @ thrown_errors ys"
  by (induction xs rule: thrown_errors.induct) simp_all

lemma console_append: "console (xs @ ys) = console xs @ console ys"
  by (induction xs rule: console.induct) simp_all

lemma cookie_writes_append: "cookie_writes (xs @ ys) = cookie_writes xs @ cookie_writes ys"
  by (induction xs rule: cookie_writes.induct) simp_all

lemmas trace_append =
  sdk_calls_append requests_append clients_append thrown_errors_append console_append
  cookie_writes_append

lemma catch_log_silent:
  "sdk_calls (catch_log ctx e) = []" "requests (catch_log ctx e) = []"
  "clients (catch_log ctx e) = []" "thrown_errors (catch_log ctx e) = []"
  "cookie_writes (catch_log ctx e) = []"
  by (simp_all add: catch_log_def)

lemma console_catch_log:
  "console (catch_log ctx e) = [if carries_message e then [JStr ctx, get_prop e ''errors''] else [e]]"
  by (simp add: catch_log_def)

lemma thrown_errors_request:
  "thrown_errors (snd (request env c rq)) = (case on_request env c rq of Inl e \<Rightarrow> [e] | Inr v \<Rightarrow> [])"
  by (simp add: request_def thrown_def split: sum.splits)

lemma request_trace:
  "sdk_calls (snd (request env c rq)) = [Request rq]"
  "requests (snd (request env c rq)) = [rq]"
  "clients (snd (request env c rq)) = [c]"
  "console (snd (request env c rq)) = []"
  "cookie_writes (snd (request env c rq)) = []"
  by (simp_all add: request_def)

lemma fst_request: "fst (request env c rq) = on_request env c rq"
  by (simp add: request_def)

lemma try_swallow_trace:
  "sdk_calls (snd (try_swallow (request env c rq) ctx)) = [Request rq]"
  "requests (snd (try_swallow (request env c rq) ctx)) = [rq]"
  "clients (snd (try_swallow (request env c rq) ctx)) = [c]"
  "cookie_writes (snd (try_swallow (request env c rq) ctx)) = []"
  by (simp_all add: try_swallow_def request_def trace_append catch_log_silent split: sum.splits)


lemma useAsyncData_trace: "snd (useAsyncData k h p) = snd h"
  by (simp add: useAsyncData_def)

lemma createItem_trace:
  "sdk_calls (snd (createItem ust env collection item options)) =
     [Request (SdkCreateItem collection item (opt_query options))]"
  "requests (snd (createItem ust env collection item options)) =
     [SdkCreateItem collection item (opt_query options)]"
  "clients (snd (createItem ust env collection item options)) = [items_client ust options]"
  "cookie_writes (snd (createItem ust env collection item options)) = []"
  by (simp_all add: createItem_def request_def trace_append split: sum.splits)

lemma items_clients:
  "clients (snd (createItems ust env collection items o1)) = [items_client ust o1]"
  "clients (snd (readItem hash ust env collection id' o2)) = [items_client ust o2]"
  "clients (snd (readItems hash ust env collection o2)) = [items_client ust o2]"
  "clients (snd (readSingleton hash ust env collection o2)) = [items_client ust o2]"
  "clients (snd (updateItem ust env collection id' item o1)) = [items_client ust o1]"
  "clients (snd (updateItems ust env collection ids item o1)) = [items_client ust o1]"
  "clients (snd (updateSingleton ust env collection item o1)) = [items_client ust o1]"
  "clients (snd (deleteItem ust env collection id' o3)) = [items_client ust o3]"
  "clients (snd (deleteItems ust env collection idOrQuery o3)) = [items_client ust o3]"
  by (simp_all add: createItems_def readItem_def readItems_def readSingleton_def
      updateItem_def updateItems_def updateSingleton_def deleteItem_def deleteItems_def
      try_swallow_trace useAsyncData_trace request_trace)









lemma after_auth_cookie_writes:
  "cookie_writes (events (after_auth env ctx (Sdk c k t) a w)) =
     (case expires a of
        None \<Rightarrow> []
      | Some n \<Rightarrow> [(RefreshTokenCookie, Some n, js_string (refresh_token a)),
                  (AccessTokenCookie, Some n, js_string (access_token a))])"
  by (auto simp: after_auth_def store_tokens_def obs_simps request_def trace_append catch_log_silent
      split: sum.splits prod.splits option.splits)

lemma after_auth_result:
  "result (after_auth env ctx ev a w) = Inr r \<Longrightarrow> r = Val (tokens_result_camel a)"
  by (auto simp: after_auth_def store_tokens_def obs_simps request_def
      split: sum.splits prod.splits option.splits)

lemma after_auth_cookies_kept:
  "expires a = None \<Longrightarrow>
   accessToken (final (after_auth env ctx ev a w)) = accessToken w
   \<and> refreshToken (final (after_auth env ctx ev a w)) = refreshToken w"
  by (auto simp: after_auth_def store_tokens_def obs_simps request_def
      split: sum.splits prod.splits option.splits)

lemma after_auth_cookies_stored:
  "expires a = Some n \<Longrightarrow>
   accessToken (final (after_auth env ctx ev a w)) = js_string (access_token a)
   \<and> refreshToken (final (after_auth env ctx ev a w)) = js_string (refresh_token a)"
  by (auto simp: after_auth_def store_tokens_def obs_simps request_def
      split: sum.splits prod.splits option.splits)

lemma signIn_after_login:
  "on_login env Directus i p None = Inr a \<Longrightarrow>
   signIn env i p w = after_auth env ''Couldn't login user'' (Sdk Directus (Login i p None) None) a w"
  by (simp add: signIn_def)

lemma read_keys_content_derived:
  "opt_key options = None \<Longrightarrow>
   key_passed (readItem hash ust env collection id' options) =
     Some (hash (JArr [JStr collection, id', opt_query options, opt_params options]))
   \<and> key_passed (readSingleton hash ust env collection options) =
     Some (hash (JArr [JStr collection, opt_query options, opt_params options]))"
  by (simp add: key_passed_def readItem_def readSingleton_def useAsyncData_def readItem_key_def
      readSingleton_key_def)

lemma try_swallow_caught:
  assumes "e \<in> set (thrown_errors (snd (try_swallow (request env c rq) ctx)))"
  shows "fst (try_swallow (request env c rq) ctx) = Inr (Val JUndefined)
     \<and> console (snd (try_swallow (request env c rq) ctx)) =
         [if carries_message e then [JStr ctx, get_prop e ''errors''] else [e]]"
  using assms
  by (cases "on_request env c rq")
    (simp_all add: try_swallow_def request_def thrown_def trace_append catch_log_silent
      console_catch_log)

lemma try_swallow_void_caught:
  assumes "e \<in> set (thrown_errors (snd (try_swallow_void (request env c rq) ctx)))"
  shows "fst (try_swallow_void (request env c rq) ctx) = Inr (Val JUndefined)
     \<and> console (snd (try_swallow_void (request env c rq) ctx)) =
         [if carries_message e then [JStr ctx, get_prop e ''errors''] else [e]]"
  using assms
  by (cases "on_request env c rq")
    (simp_all add: try_swallow_void_def request_def thrown_def trace_append catch_log_silent
      console_catch_log)

lemma createItem_caught:
  assumes "e \<in> set (thrown_errors (snd (createItem ust env collection item options)))"
  shows "fst (createItem ust env collection item options) = Inr (Val JUndefined)
     \<and> (carries_message e \<longrightarrow>
          console (snd (createItem ust env collection item options)) =
            [[JStr ''Couldn't create item'', get_prop e ''errors'']])"
  using assms
  by (cases "on_request env (items_client ust options)
        (SdkCreateItem collection item (opt_query options))")
    (auto simp: createItem_def request_def thrown_def trace_append split: if_splits)

lemma useAsyncData_uncaught:
  assumes "e \<in> set (thrown_errors (snd (useAsyncData k (request env c rq) p)))"
  shows "console (snd (useAsyncData k (request env c rq) p)) = []
     \<and> fst (useAsyncData k (request env c rq) p) =
         Inr (Async \<lparr>ad_key = k, ad_result = Inl e, ad_options = p\<rparr>)"
  using assms
  by (cases "on_request env c rq") (simp_all add: useAsyncData_def request_def thrown_def)

lemma login_caught:
  assumes "e \<in> set (thrown_errors (events (login unc env i p options w)))"
  shows "result (login unc env i p options w) = Inr (Val JUndefined)
     \<and> console (events (login unc env i p options w)) =
         [if carries_message e then [JStr ''Couldn't login user'', get_prop e ''errors''] else [e]]"
  using assms
  by (cases "on_login env (auth_client JUndefined) i p
        (Some (defu options \<lparr>otp = None, mode = Some (if unc then ''json'' else ''cookie'')\<rparr>))";
      cases "on_readMe env")
    (auto simp: login_def Let_def obs_simps trace_append catch_log_silent console_catch_log split del: if_split)

lemma refreshTokens_caught:
  assumes "e \<in> set (thrown_errors (events (refreshTokens env w)))"
  shows "result (refreshTokens env w) = Inr (Val JUndefined)
     \<and> console (events (refreshTokens env w)) =
         [if carries_message e then [JStr ''Couldn't refresh tokens'', get_prop e ''errors''] else [e]]"
  using assms
  by (cases "on_refresh env (auth_client JUndefined)"; cases "on_readMe env")
    (auto simp: refreshTokens_def Let_def obs_simps trace_append catch_log_silent
      console_catch_log split del: if_split)

lemma logout_caught:
  assumes "e \<in> set (thrown_errors (events (logout env w)))"
  shows "result (logout env w) = Inr (Val JUndefined)
     \<and> console (events (logout env w)) =
         [if carries_message e then [JStr ''Couldn't logut user'', get_prop e ''errors''] else [e]]"
  using assms
  by (cases "on_logout env (auth_client JUndefined)")
    (auto simp: logout_def Let_def obs_simps trace_append catch_log_silent console_catch_log split del: if_split)

lemma fetchUser_caught:
  assumes "e \<in> set (thrown_errors (events (fetchUser env w)))"
  shows "result (fetchUser env w) = Inl (rethrown e)
     \<and> console (events (fetchUser env w)) =
         [if carries_message e then [JStr ''Couldn't fetch user'', get_prop e ''errors''] else [e]]"
  using assms
  by (cases "truthy (accessToken w)"; cases "on_request env RestDefault SdkReadMe")
    (auto simp: fetchUser_def request_def thrown_def obs_simps trace_append catch_log_silent
      console_catch_log split del: if_split)

lemma after_auth_caught:
  assumes "e \<in> set (thrown_errors (events (after_auth env ctx (Sdk c k None) a w)))"
  shows "result (after_auth env ctx (Sdk c k None) a w) = Inl (rethrown e)
     \<and> console (events (after_auth env ctx (Sdk c k None) a w)) =
         [if carries_message e then [JStr ctx, get_prop e ''errors''] else [e]]"
  using assms
  by (cases "on_request env Directus (WithToken (js_string (access_token a)) SdkReadMe)";
      cases "expires a")
    (auto simp: after_auth_def store_tokens_def request_def thrown_def obs_simps trace_append
      catch_log_silent console_catch_log split del: if_split)

lemma signIn_caught:
  assumes "e \<in> set (thrown_errors (events (signIn env i p w)))"
  shows "result (signIn env i p w) = Inl (rethrown e)
     \<and> console (events (signIn env i p w)) =
         [if carries_message e then [JStr ''Couldn't login user'', get_prop e ''errors''] else [e]]"
proof (cases "on_login env Directus i p None")
  case (Inl x)
  then show ?thesis
    using assms
    by (auto simp: signIn_def obs_simps catch_log_silent console_catch_log split del: if_split)
next
  case (Inr a)
  then show ?thesis
    using assms after_auth_caught [of e env "''Couldn't login user''" Directus "Login i p None" a w]
    by (simp add: signIn_def split del: if_split)
qed

lemma refreshTokens_cookie_caught:
  assumes "e \<in> set (thrown_errors (events (refreshTokens_cookie env w)))"
  shows "result (refreshTokens_cookie env w) = Inl (rethrown e)
     \<and> console (events (refreshTokens_cookie env w)) =
         [if carries_message e then [JStr ''Couldn't refresh tokens'', get_prop e ''errors''] else [e]]"
proof (cases "on_refresh env Directus")
  case (Inl x)
  then show ?thesis
    using assms
    by (auto simp: refreshTokens_cookie_def obs_simps catch_log_silent console_catch_log
        split del: if_split)
next
  case (Inr a)
  then show ?thesis
    using assms after_auth_caught [of e env "''Couldn't refresh tokens''" Directus Refresh a w]
    by (simp add: refreshTokens_cookie_def split del: if_split)
qed

lemma signOut_caught:
  assumes "e \<in> set (thrown_errors (events (signOut env w)))"
  shows "result (signOut env w) = Inl (rethrown e)
     \<and> console (events (signOut env w)) =
         [if carries_message e then [JStr ''Couldn't logut user'', get_prop e ''errors''] else [e]]"
  using assms
  by (cases "on_logout env Directus")
    (auto simp: signOut_def obs_simps trace_append catch_log_silent console_catch_log split del: if_split)



section \<open>Properties\<close>

text \<open>
  Claim C1, at the inputs where \<open>readItems\<close> departs from it. With no \<open>options.key\<close>,
  \<open>readItems\<close> hashes the collection name and \<open>options?.toString()\<close>. A call with no options
  and a call with empty options have the same collection, query and params and hash
  different arrays; two calls whose queries differ hash the same array.
\<close>

theorem readItems_key_ignores_query:
  "key_passed (readItems hash ust env ''posts'' None) = Some (hash (JArr [JStr ''posts'', JUndefined]))
   \<and> key_passed (readItems hash ust env ''posts'' (Some no_query)) =
       Some (hash (JArr [JStr ''posts'', JStr ''[object Object]'']))
   \<and> opt_query None = opt_query (Some no_query)
   \<and> opt_params None = opt_params (Some no_query)
   \<and> key_passed (readItems hash ust env ''posts'' (Some (limit_query 1))) =
       key_passed (readItems hash ust env ''posts'' (Some (limit_query 2)))
   \<and> opt_query (Some (limit_query 1)) \<noteq> opt_query (Some (limit_query 2))"
  by (simp add: key_passed_def readItems_def useAsyncData_def readItems_key_def opt_key_def
      opt_toString_def opt_query_def opt_params_def no_query_def limit_query_def)

text \<open>
  Claim C2, as stated, at a read operation: the SDK error carries a message, and
  \<open>readItem\<close> logs nothing and catches nothing; the error goes to \<open>useAsyncData\<close> as the
  handler's outcome.
\<close>

theorem readItem_error_neither_caught_nor_logged:
  "thrown_errors (events (exec sample_cfg (backend_failing forbidden)
      (Call_readItem ''posts'' (JNum 1) None) signed_out)) = [forbidden]
   \<and> carries_message forbidden
   \<and> console (events (exec sample_cfg (backend_failing forbidden)
      (Call_readItem ''posts'' (JNum 1) None) signed_out)) = []
   \<and> result (exec sample_cfg (backend_failing forbidden)
      (Call_readItem ''posts'' (JNum 1) None) signed_out) =
       Inr (Async \<lparr>ad_key = ''key'', ad_result = Inl forbidden, ad_options = JUndefined\<rparr>)"
  by (simp add: obs_simps readItem_def useAsyncData_def request_def thrown_def backend_failing_def
      carries_message_def forbidden_def sample_cfg_def readItem_key_def opt_key_def opt_params_def)

text \<open>
  Claim C2, amended. An error thrown by an outside call is caught by every operation that
  has a catch block: the operations of \<open>useDirectusItems\<close> and of the first \<open>useDirectusAuth\<close>
  then return \<open>undefined\<close>, the four of the second \<open>useDirectusAuth\<close> throw \<open>error.errors\<close>
  when the error carries a message and the raw error otherwise. Whenever the error carries a
  message, the operation logs its context string with \<open>error.errors\<close> and nothing else. The
  three read operations have no catch block: with or without a message, they log nothing and
  the raw error reaches \<open>useAsyncData\<close> as the handler's outcome.
\<close>

theorem caught_error_logged:
  assumes "e \<in> set (thrown_errors (events (exec cfg env c w)))"
  shows "(\<not> read_path c \<longrightarrow>
            result (exec cfg env c w) =
              (if rethrows c
               then Inl (if carries_message e then get_prop e ''errors'' else e)
               else Inr (Val JUndefined))
            \<and> (carries_message e \<longrightarrow>
                 console (events (exec cfg env c w)) =
                   [[JStr (context_string c), get_prop e ''errors'']]))
     \<and> (read_path c \<longrightarrow>
            console (events (exec cfg env c w)) = []
            \<and> (\<exists>k p. result (exec cfg env c w) =
                  Inr (Async \<lparr>ad_key = k, ad_result = Inl e, ad_options = p\<rparr>)))"
proof (cases c)
  case (Call_createItem collection item options)
  then show ?thesis
    using assms createItem_caught [of e "cfg_useStaticToken cfg" env collection item options]
    by (simp add: obs_simps)
next
  case (Call_login i p options)
  then show ?thesis using assms login_caught [of e "cfg_useNuxtCookies cfg" env i p options w] by simp
next
  case Call_refreshTokens
  then show ?thesis using assms refreshTokens_caught [of e env w] by simp
next
  case Call_logout
  then show ?thesis using assms logout_caught [of e env w] by simp
next
  case (Call_setUser v)
  then show ?thesis using assms by (simp add: setUser_def obs_simps)
next
  case Call_fetchUser
  then show ?thesis using assms fetchUser_caught [of e env w] by (simp add: rethrown_def)
next
  case (Call_signIn i p)
  then show ?thesis using assms signIn_caught [of e env i p w] by (simp add: rethrown_def)
next
  case Call_refreshTokens_cookie
  then show ?thesis using assms refreshTokens_cookie_caught [of e env w] by (simp add: rethrown_def)
next
  case Call_signOut
  then show ?thesis using assms signOut_caught [of e env w] by (simp add: rethrown_def)
qed (use assms in \<open>auto simp: obs_simps createItems_def updateItem_def updateItems_def
      updateSingleton_def deleteItem_def deleteItems_def passwordRequest_def passwordReset_def
      inviteUser_def readItem_def readItems_def readSingleton_def
      dest: try_swallow_caught try_swallow_void_caught useAsyncData_uncaught\<close>)

theorem caught_error_logged_witness:
  "forbidden \<in> set (thrown_errors (events (exec sample_cfg (backend_failing forbidden) Call_signOut signed_in)))
   \<and> carries_message forbidden
   \<and> console (events (exec sample_cfg (backend_failing forbidden) Call_signOut signed_in)) =
       [[JStr ''Couldn't logut user'', JArr [JObj [(''message'', JStr ''Forbidden'')]]]]
   \<and> result (exec sample_cfg (backend_failing forbidden) Call_signOut signed_in) =
       Inl (JArr [JObj [(''message'', JStr ''Forbidden'')]])
   \<and> forbidden \<in> set (thrown_errors (events (exec sample_cfg (backend_failing forbidden)
        (Call_deleteItem ''posts'' (JNum 7) None) signed_in)))
   \<and> console (events (exec sample_cfg (backend_failing forbidden)
        (Call_deleteItem ''posts'' (JNum 7) None) signed_in)) =
       [[JStr ''Couldn't delete item'', JArr [JObj [(''message'', JStr ''Forbidden'')]]]]
   \<and> result (exec sample_cfg (backend_failing forbidden)
        (Call_deleteItem ''posts'' (JNum 7) None) signed_in) = Inr (Val JUndefined)
   \<and> no_message \<in> set (thrown_errors (events (exec sample_cfg (backend_failing no_message)
        (Call_deleteItem ''posts'' (JNum 7) None) signed_in)))
   \<and> \<not> carries_message no_message
   \<and> result (exec sample_cfg (backend_failing no_message)
        (Call_deleteItem ''posts'' (JNum 7) None) signed_in) = Inr (Val JUndefined)
   \<and> no_message \<in> set (thrown_errors (events (exec sample_cfg (backend_failing no_message)
        Call_signOut signed_in)))
   \<and> result (exec sample_cfg (backend_failing no_message) Call_signOut signed_in) = Inl no_message
   \<and> no_message \<in> set (thrown_errors (events (exec sample_cfg (backend_failing no_message)
        (Call_readSingleton ''settings'' None) signed_in)))
   \<and> console (events (exec sample_cfg (backend_failing no_message)
        (Call_readSingleton ''settings'' None) signed_in)) = []
   \<and> result (exec sample_cfg (backend_failing no_message)
        (Call_readSingleton ''settings'' None) signed_in) =
       Inr (Async \<lparr>ad_key = ''key'', ad_result = Inl no_message, ad_options = JUndefined\<rparr>)"
proof -
  have m: "carries_message forbidden"
    by (simp add: carries_message_def forbidden_def)
  have n: "\<not> carries_message no_message"
    by (simp add: carries_message_def no_message_def)
  have t1: "forbidden \<in> set (thrown_errors (events (exec sample_cfg (backend_failing forbidden)
      Call_signOut signed_in)))"
    by (simp add: signOut_def backend_failing_def obs_simps)
  have t2: "forbidden \<in> set (thrown_errors (events (exec sample_cfg (backend_failing forbidden)
      (Call_deleteItem ''posts'' (JNum 7) None) signed_in)))"
    by (simp add: deleteItem_def try_swallow_def request_def thrown_def backend_failing_def
        obs_simps)
  have t3: "no_message \<in> set (thrown_errors (events (exec sample_cfg (backend_failing no_message)
      (Call_deleteItem ''posts'' (JNum 7) None) signed_in)))"
    by (simp add: deleteItem_def try_swallow_def request_def thrown_def backend_failing_def
        obs_simps)
  have t4: "no_message \<in> set (thrown_errors (events (exec sample_cfg (backend_failing no_message)
      Call_signOut signed_in)))"
    by (simp add: signOut_def backend_failing_def obs_simps)
  have t5: "no_message \<in> set (thrown_errors (events (exec sample_cfg (backend_failing no_message)
      (Call_readSingleton ''settings'' None) signed_in)))"
    by (simp add: readSingleton_def useAsyncData_def request_def thrown_def backend_failing_def
        obs_simps)
  have e: "get_prop forbidden ''errors'' = JArr [JObj [(''message'', JStr ''Forbidden'')]]"
    by (simp add: forbidden_def)
  have k: "result (exec sample_cfg (backend_failing no_message)
        (Call_readSingleton ''settings'' None) signed_in) =
       Inr (Async \<lparr>ad_key = ''key'', ad_result = Inl no_message, ad_options = JUndefined\<rparr>)"
    using caught_error_logged [OF t5]
    by (simp add: obs_simps readSingleton_def useAsyncData_def sample_cfg_def readSingleton_key_def
        opt_key_def opt_params_def)
  show ?thesis
    using caught_error_logged [OF t1] caught_error_logged [OF t2] caught_error_logged [OF t3]
      caught_error_logged [OF t4] caught_error_logged [OF t5] m n t1 t2 t3 t4 t5 e k
    by simp
qed

text \<open>
  Claim C3, at the input where \<open>createItem\<close> departs from it: the SDK throws an error
  with no \<open>message\<close>; \<open>createItem\<close> returns \<open>undefined\<close> and logs nothing, where
  \<open>createItems\<close> logs the raw error.
\<close>

theorem createItem_discards_error_without_message:
  "\<not> carries_message no_message
   \<and> createItem (JBool True) (backend_failing no_message) ''posts'' (JObj []) None =
       (Inr (Val JUndefined),
        [Sdk (Rest (JBool True)) (Request (SdkCreateItem ''posts'' (JObj []) JUndefined))
           (Some no_message)])
   \<and> console (snd (createItem (JBool True) (backend_failing no_message) ''posts'' (JObj []) None)) = []
   \<and> console (snd (createItems (JBool True) (backend_failing no_message) ''posts'' (JArr []) None)) =
       [[no_message]]"
  by (simp add: carries_message_def no_message_def createItem_def createItems_def try_swallow_def
      request_def thrown_def backend_failing_def items_client_def js_or_def opt_useStaticToken_def
      opt_query_def catch_log_def)

text \<open>
  Claim C4. Every CRUD wrapper of \<open>useDirectusItems\<close> builds exactly one request: the SDK
  constructor of the same name on the caller's collection, id(s) and payload, in the
  constructor's order, followed by \<open>options.query\<close> as the caller gave it (\<open>undefined\<close> when
  there are no options). \<open>deleteItem\<close> and \<open>deleteItems\<close> take no query option.
\<close>

theorem crud_forwards_arguments:
  "requests (snd (createItem ust env collection item oi)) =
     [SdkCreateItem collection item (case oi of None \<Rightarrow> JUndefined | Some x \<Rightarrow> query x)]
   \<and> requests (snd (createItems ust env collection items oi)) =
     [SdkCreateItems collection items (case oi of None \<Rightarrow> JUndefined | Some x \<Rightarrow> query x)]
   \<and> requests (snd (readItem hash ust env collection id' oa)) =
     [SdkReadItem collection id' (case oa of None \<Rightarrow> JUndefined | Some x \<Rightarrow> query x)]
   \<and> requests (snd (readItems hash ust env collection oa)) =
     [SdkReadItems collection (case oa of None \<Rightarrow> JUndefined | Some x \<Rightarrow> query x)]
   \<and> requests (snd (readSingleton hash ust env collection oa)) =
     [SdkReadSingleton collection (case oa of None \<Rightarrow> JUndefined | Some x \<Rightarrow> query x)]
   \<and> requests (snd (updateItem ust env collection id' item oi)) =
     [SdkUpdateItem collection id' item (case oi of None \<Rightarrow> JUndefined | Some x \<Rightarrow> query x)]
   \<and> requests (snd (updateItems ust env collection ids item oi)) =
     [SdkUpdateItems collection ids item (case oi of None \<Rightarrow> JUndefined | Some x \<Rightarrow> query x)]
   \<and> requests (snd (updateSingleton ust env collection item oi)) =
     [SdkUpdateSingleton collection item (case oi of None \<Rightarrow> JUndefined | Some x \<Rightarrow> query x)]
   \<and> requests (snd (deleteItem ust env collection id' od)) = [SdkDeleteItem collection id']
   \<and> requests (snd (deleteItems ust env collection idOrQuery od)) = [SdkDeleteItems collection idOrQuery]"
  by (simp add: createItem_trace createItems_def readItem_def readItems_def readSingleton_def
      updateItem_def updateItems_def updateSingleton_def deleteItem_def deleteItems_def
      try_swallow_trace useAsyncData_trace request_trace opt_query_def split: option.splits)

theorem crud_forwards_arguments_witness:
  "requests (snd (updateItem (JBool True) (backend_ok sample_auth) ''posts'' (JNum 7)
      (JObj [(''title'', JStr ''Hello'')])
      (Some \<lparr>useStaticToken = JUndefined, query = JObj [(''fields'', JArr [JStr ''id''])]\<rparr>))) =
     [SdkUpdateItem ''posts'' (JNum 7) (JObj [(''title'', JStr ''Hello'')])
        (JObj [(''fields'', JArr [JStr ''id''])])]
   \<and> requests (snd (readItems (cfg_hash sample_cfg) (JBool True) (backend_ok sample_auth) ''posts''
      (Some (limit_query 5)))) = [SdkReadItems ''posts'' (JObj [(''limit'', JNum 5)])]
   \<and> requests (snd (createItem (JBool True) (backend_ok sample_auth) ''posts''
      (JObj [(''title'', JStr ''Hello'')]) None)) =
     [SdkCreateItem ''posts'' (JObj [(''title'', JStr ''Hello'')]) JUndefined]
   \<and> requests (snd (deleteItems (JBool True) (backend_ok sample_auth) ''posts''
      (JArr [JNum 1, JNum 2]) None)) = [SdkDeleteItems ''posts'' (JArr [JNum 1, JNum 2])]"
  using crud_forwards_arguments [where ust = "JBool True" and env = "backend_ok sample_auth"
      and collection = "''posts''" and id' = "JNum 7" and item = "JObj [(''title'', JStr ''Hello'')]"
      and oi = "Some \<lparr>useStaticToken = JUndefined, query = JObj [(''fields'', JArr [JStr ''id''])]\<rparr>"
      and oa = "Some (limit_query 5)" and od = None and idOrQuery = "JArr [JNum 1, JNum 2]"
      and hash = "cfg_hash sample_cfg"]
    crud_forwards_arguments [where ust = "JBool True" and env = "backend_ok sample_auth"
      and collection = "''posts''" and item = "JObj [(''title'', JStr ''Hello'')]" and oi = None]
  by (simp add: limit_query_def)







text \<open>
  Claim C7. Every CRUD wrapper resolves its client with
  \<open>options?.useStaticToken || useStaticToken\<close>: the per-call flag when it is truthy, the
  composable-level flag otherwise (also when there are no options). The result is truthy
  exactly when one of the two is, it is the disjunction when both are booleans, and a falsy
  per-call flag cannot override a truthy composable-level flag.
\<close>

theorem static_token_flag_is_or:
  "clients (snd (createItem ust env collection item oi)) =
     [Rest (case oi of None \<Rightarrow> ust
            | Some x \<Rightarrow> if truthy (useStaticToken x) then useStaticToken x else ust)]
   \<and> clients (snd (createItems ust env collection items oi)) =
     [Rest (case oi of None \<Rightarrow> ust
            | Some x \<Rightarrow> if truthy (useStaticToken x) then useStaticToken x else ust)]
   \<and> clients (snd (readItem hash ust env collection id' oa)) =
     [Rest (case oa of None \<Rightarrow> ust
            | Some x \<Rightarrow> if truthy (useStaticToken x) then useStaticToken x else ust)]
   \<and> clients (snd (readItems hash ust env collection oa)) =
     [Rest (case oa of None \<Rightarrow> ust
            | Some x \<Rightarrow> if truthy (useStaticToken x) then useStaticToken x else ust)]
   \<and> clients (snd (readSingleton hash ust env collection oa)) =
     [Rest (case oa of None \<Rightarrow> ust
            | Some x \<Rightarrow> if truthy (useStaticToken x) then useStaticToken x else ust)]
   \<and> clients (snd (updateItem ust env collection id' item oi)) =
     [Rest (case oi of None \<Rightarrow> ust
            | Some x \<Rightarrow> if truthy (useStaticToken x) then useStaticToken x else ust)]
   \<and> clients (snd (updateItems ust env collection ids item oi)) =
     [Rest (case oi of None \<Rightarrow> ust
            | Some x \<Rightarrow> if truthy (useStaticToken x) then useStaticToken x else ust)]
   \<and> clients (snd (updateSingleton ust env collection item oi)) =
     [Rest (case oi of None \<Rightarrow> ust
            | Some x \<Rightarrow> if truthy (useStaticToken x) then useStaticToken x else ust)]
   \<and> clients (snd (deleteItem ust env collection id' od)) =
     [Rest (case od of None \<Rightarrow> ust
            | Some x \<Rightarrow> if truthy (useStaticToken x) then useStaticToken x else ust)]
   \<and> clients (snd (deleteItems ust env collection idOrQuery od)) =
     [Rest (case od of None \<Rightarrow> ust
            | Some x \<Rightarrow> if truthy (useStaticToken x) then useStaticToken x else ust)]
   \<and> truthy (if truthy f then f else ust) = (truthy f \<or> truthy ust)
   \<and> (if truthy (JBool a) then JBool a else JBool b) = JBool (a \<or> b)
   \<and> (\<not> truthy (useStaticToken xi) \<and> \<not> truthy (useStaticToken xa) \<and> \<not> truthy (useStaticToken xd)
        \<and> truthy ust \<longrightarrow>
        clients (snd (createItem ust env collection item (Some xi))) = [Rest ust]
        \<and> clients (snd (createItems ust env collection items (Some xi))) = [Rest ust]
        \<and> clients (snd (readItem hash ust env collection id' (Some xa))) = [Rest ust]
        \<and> clients (snd (readItems hash ust env collection (Some xa))) = [Rest ust]
        \<and> clients (snd (readSingleton hash ust env collection (Some xa))) = [Rest ust]
        \<and> clients (snd (updateItem ust env collection id' item (Some xi))) = [Rest ust]
        \<and> clients (snd (updateItems ust env collection ids item (Some xi))) = [Rest ust]
        \<and> clients (snd (updateSingleton ust env collection item (Some xi))) = [Rest ust]
        \<and> clients (snd (deleteItem ust env collection id' (Some xd))) = [Rest ust]
        \<and> clients (snd (deleteItems ust env collection idOrQuery (Some xd))) = [Rest ust])"
  by (simp add: createItem_trace items_clients items_client_def js_or_def opt_useStaticToken_def
      split: option.splits)

theorem static_token_flag_is_or_witness:
  "clients (snd (createItem (JBool True) (backend_ok sample_auth) ''posts'' JNull
      (Some \<lparr>useStaticToken = JBool False, query = JUndefined\<rparr>))) = [Rest (JBool True)]
   \<and> clients (snd (createItem (JBool False) (backend_ok sample_auth) ''posts'' JNull
      (Some \<lparr>useStaticToken = JBool True, query = JUndefined\<rparr>))) = [Rest (JBool True)]
   \<and> clients (snd (createItem (JBool False) (backend_ok sample_auth) ''posts'' JNull
      (Some \<lparr>useStaticToken = JBool False, query = JUndefined\<rparr>))) = [Rest (JBool False)]
   \<and> clients (snd (createItem (JStr ''shared'') (backend_ok sample_auth) ''posts'' JNull
      (Some \<lparr>useStaticToken = JStr ''mine'', query = JUndefined\<rparr>))) = [Rest (JStr ''mine'')]
   \<and> clients (snd (createItem (JStr ''shared'') (backend_ok sample_auth) ''posts'' JNull
      (Some \<lparr>useStaticToken = JUndefined, query = JUndefined\<rparr>))) = [Rest (JStr ''shared'')]
   \<and> clients (snd (createItem (JStr ''shared'') (backend_ok sample_auth) ''posts'' JNull None)) =
       [Rest (JStr ''shared'')]
   \<and> clients (snd (readItems (cfg_hash sample_cfg) (JBool True) (backend_ok sample_auth) ''posts''
      (Some \<lparr>useStaticToken = JBool False, query = JUndefined, key = None, params = JUndefined\<rparr>))) =
       [Rest (JBool True)]
   \<and> clients (snd (readItems (cfg_hash sample_cfg) (JBool False) (backend_ok sample_auth) ''posts''
      (Some \<lparr>useStaticToken = JStr ''mine'', query = JUndefined, key = None, params = JUndefined\<rparr>))) =
       [Rest (JStr ''mine'')]
   \<and> clients (snd (deleteItem (JBool True) (backend_ok sample_auth) ''posts'' (JNum 7)
      (Some \<lparr>useStaticToken = JBool False\<rparr>))) = [Rest (JBool True)]
   \<and> clients (snd (deleteItem (JBool False) (backend_ok sample_auth) ''posts'' (JNum 7)
      (Some \<lparr>useStaticToken = JBool True\<rparr>))) = [Rest (JBool True)]"
  using static_token_flag_is_or [where ust = "JBool True" and env = "backend_ok sample_auth"
      and collection = "''posts''" and item = JNull and id' = "JNum 7" and hash = "cfg_hash sample_cfg"
      and oi = "Some \<lparr>useStaticToken = JBool False, query = JUndefined\<rparr>"
      and oa = "Some \<lparr>useStaticToken = JBool False, query = JUndefined, key = None, params = JUndefined\<rparr>"
      and od = "Some \<lparr>useStaticToken = JBool False\<rparr>"]
    static_token_flag_is_or [where ust = "JBool False" and env = "backend_ok sample_auth"
      and collection = "''posts''" and item = JNull and id' = "JNum 7" and hash = "cfg_hash sample_cfg"
      and oi = "Some \<lparr>useStaticToken = JBool True, query = JUndefined\<rparr>"
      and oa = "Some \<lparr>useStaticToken = JStr ''mine'', query = JUndefined, key = None, params = JUndefined\<rparr>"
      and od = "Some \<lparr>useStaticToken = JBool True\<rparr>"]
    static_token_flag_is_or [where ust = "JBool False" and env = "backend_ok sample_auth"
      and collection = "''posts''" and item = JNull
      and oi = "Some \<lparr>useStaticToken = JBool False, query = JUndefined\<rparr>"]
    static_token_flag_is_or [where ust = "JStr ''shared''" and env = "backend_ok sample_auth"
      and collection = "''posts''" and item = JNull
      and oi = "Some \<lparr>useStaticToken = JStr ''mine'', query = JUndefined\<rparr>"]
    static_token_flag_is_or [where ust = "JStr ''shared''" and env = "backend_ok sample_auth"
      and collection = "''posts''" and item = JNull
      and oi = "Some \<lparr>useStaticToken = JUndefined, query = JUndefined\<rparr>"]
    static_token_flag_is_or [where ust = "JStr ''shared''" and env = "backend_ok sample_auth"
      and collection = "''posts''" and item = JNull and oi = None]
  by simp

text \<open>
  Claim C8. When the SDK's \<open>logout\<close> throws, \<open>logout\<close> leaves the user ref as it was and
  \<open>signOut\<close> leaves the user ref and both cookies as they were and writes no cookie; the
  cells are cleared only after \<open>logout\<close> has returned.
\<close>

theorem logout_atomic:
  "(on_logout env (auth_client JUndefined) = Inl e \<longrightarrow> final (logout env w) = w)
   \<and> (on_logout env Directus = Inl e \<longrightarrow>
        final (signOut env w) = w \<and> cookie_writes (events (signOut env w)) = [])
   \<and> (on_logout env (auth_client JUndefined) = Inr () \<longrightarrow>
        final (logout env w) = w\<lparr>user := JUndefined\<rparr>)
   \<and> (on_logout env Directus = Inr () \<longrightarrow>
        final (signOut env w) = w\<lparr>accessToken := JNull, refreshToken := JNull, user := JNull\<rparr>)"
  by (simp add: logout_def signOut_def obs_simps catch_log_silent)

theorem logout_atomic_witness:
  "on_logout (backend_failing forbidden) (auth_client JUndefined) = Inl forbidden
   \<and> final (logout (backend_failing forbidden) signed_in) = signed_in
   \<and> on_logout (backend_failing forbidden) Directus = Inl forbidden
   \<and> final (signOut (backend_failing forbidden) signed_in) = signed_in
   \<and> on_logout (backend_ok sample_auth) (auth_client JUndefined) = Inr ()
   \<and> user (final (logout (backend_ok sample_auth) signed_in)) = JUndefined
   \<and> on_logout (backend_ok sample_auth) Directus = Inr ()
   \<and> final (signOut (backend_ok sample_auth) signed_in) =
        \<lparr>user = JNull, accessToken = JNull, refreshToken = JNull, asyncData = Map.empty\<rparr>"
  using logout_atomic [of "backend_failing forbidden" forbidden signed_in]
    logout_atomic [of "backend_ok sample_auth" forbidden signed_in]
  by (simp add: backend_failing_def backend_ok_def signed_in_def)

text \<open>
  Claim C9. On a successful \<open>signIn\<close> the two cookies are written exactly when
  \<open>authResponse.expires\<close> is not \<open>null\<close>: the refresh-token cookie first, both with
  \<open>maxAge = expires\<close>, and the two cookie cells then hold the tokens. With
  \<open>expires = null\<close> no cookie is written and both cookie cells keep their values, and the
  returned object still carries the two tokens.
\<close>

theorem signIn_cookies_iff_expires:
  assumes "on_login env Directus i p None = Inr a"
    and "result (signIn env i p w) = Inr r"
  shows "(cookie_writes (events (signIn env i p w)) \<noteq> [] \<longleftrightarrow> expires a \<noteq> None)
     \<and> (\<forall>n. expires a = Some n \<longrightarrow>
           cookie_writes (events (signIn env i p w)) =
             [(RefreshTokenCookie, Some n, js_string (refresh_token a)),
              (AccessTokenCookie, Some n, js_string (access_token a))]
           \<and> refreshToken (final (signIn env i p w)) = js_string (refresh_token a)
           \<and> accessToken (final (signIn env i p w)) = js_string (access_token a))
     \<and> (expires a = None \<longrightarrow>
           cookie_writes (events (signIn env i p w)) = []
           \<and> accessToken (final (signIn env i p w)) = accessToken w
           \<and> refreshToken (final (signIn env i p w)) = refreshToken w)
     \<and> r = Val (tokens_result_camel a)
     \<and> get_prop (tokens_result_camel a) ''accessToken'' = js_string (access_token a)
     \<and> get_prop (tokens_result_camel a) ''refreshToken'' = js_string (refresh_token a)"
proof -
  let ?run = "after_auth env ''Couldn't login user'' (Sdk Directus (Login i p None) None) a w"
  have run: "signIn env i p w = ?run"
    using assms(1) by (rule signIn_after_login)
  have "r = Val (tokens_result_camel a)"
    using assms(2) unfolding run by (rule after_auth_result)
  moreover have "cookie_writes (events ?run) =
     (case expires a of
        None \<Rightarrow> []
      | Some n \<Rightarrow> [(RefreshTokenCookie, Some n, js_string (refresh_token a)),
                  (AccessTokenCookie, Some n, js_string (access_token a))])"
    by (rule after_auth_cookie_writes)
  moreover have "expires a = None \<Longrightarrow>
      accessToken (final ?run) = accessToken w \<and> refreshToken (final ?run) = refreshToken w"
    by (rule after_auth_cookies_kept)
  moreover have "\<And>n. expires a = Some n \<Longrightarrow>
      accessToken (final ?run) = js_string (access_token a)
      \<and> refreshToken (final ?run) = js_string (refresh_token a)"
    by (rule after_auth_cookies_stored)
  ultimately show ?thesis
    unfolding run by (cases "expires a") (simp_all add: tokens_result_camel_def)
qed

theorem signIn_cookies_iff_expires_witness:
  "on_login (backend_ok sample_auth_no_expiry) Directus ''admin'' ''secret'' None = Inr sample_auth_no_expiry
   \<and> result (signIn (backend_ok sample_auth_no_expiry) ''admin'' ''secret'' signed_in) =
        Inr (Val (tokens_result_camel sample_auth_no_expiry))
   \<and> expires sample_auth_no_expiry = None
   \<and> cookie_writes (events (signIn (backend_ok sample_auth_no_expiry) ''admin'' ''secret'' signed_in)) = []
   \<and> accessToken (final (signIn (backend_ok sample_auth_no_expiry) ''admin'' ''secret'' signed_in)) = JStr ''at-0''
   \<and> refreshToken (final (signIn (backend_ok sample_auth_no_expiry) ''admin'' ''secret'' signed_in)) = JStr ''rt-0''
   \<and> get_prop (tokens_result_camel sample_auth_no_expiry) ''accessToken'' = JStr ''at-1''
   \<and> on_login (backend_ok sample_auth) Directus ''admin'' ''secret'' None = Inr sample_auth
   \<and> result (signIn (backend_ok sample_auth) ''admin'' ''secret'' signed_in) =
        Inr (Val (tokens_result_camel sample_auth))
   \<and> expires sample_auth = Some 900
   \<and> cookie_writes (events (signIn (backend_ok sample_auth) ''admin'' ''secret'' signed_in)) =
        [(RefreshTokenCookie, Some 900, JStr ''rt-1''), (AccessTokenCookie, Some 900, JStr ''at-1'')]
   \<and> accessToken (final (signIn (backend_ok sample_auth) ''admin'' ''secret'' signed_in)) = JStr ''at-1''
   \<and> refreshToken (final (signIn (backend_ok sample_auth) ''admin'' ''secret'' signed_in)) = JStr ''rt-1''"
proof -
  have l0: "on_login (backend_ok sample_auth_no_expiry) Directus ''admin'' ''secret'' None =
      Inr sample_auth_no_expiry"
    by (simp add: backend_ok_def)
  have r0: "result (signIn (backend_ok sample_auth_no_expiry) ''admin'' ''secret'' signed_in) =
      Inr (Val (tokens_result_camel sample_auth_no_expiry))"
    by (simp add: signIn_def after_auth_def store_tokens_def request_def backend_ok_def
        sample_auth_no_expiry_def obs_simps)
  have l1: "on_login (backend_ok sample_auth) Directus ''admin'' ''secret'' None = Inr sample_auth"
    by (simp add: backend_ok_def)
  have r1: "result (signIn (backend_ok sample_auth) ''admin'' ''secret'' signed_in) =
      Inr (Val (tokens_result_camel sample_auth))"
    by (simp add: signIn_def after_auth_def store_tokens_def request_def backend_ok_def
        sample_auth_def obs_simps)
  show ?thesis
    using signIn_cookies_iff_expires [OF l0 r0] signIn_cookies_iff_expires [OF l1 r1] l0 r0 l1 r1
    by (simp add: sample_auth_no_expiry_def sample_auth_def signed_in_def js_string_def)
qed

end
